theory Spec2Isabelle
  imports Main
begin

section \<open>The legend handle generator of \<^verbatim>\<open>Week3/exercise_script.py\<close>\<close>

text \<open>
  The script defines one function of its own, \<^verbatim>\<open>generate_handles\<close> (lines 10 to 15):
  \<^verbatim>\<open>
  def generate_handles(labels, colors, edge='k', alpha=1):
      lc = len(colors)  # get the length of the color list
      handles = []
      for i in range(len(labels)):
          handles.append(mpatches.Rectangle((0, 0), 1, 1, facecolor=colors[i % lc],
                                            edgecolor=edge, alpha=alpha))
      return handles
  \<close>
  Python integers are \<open>int\<close>; the three operations of the loop body that can raise,
  \<^verbatim>\<open>%\<close>, list indexing and the constructor of the patch, return a sum with the
  exception on the left.
\<close>

datatype py_error = ZeroDivisionError | IndexError | ValueError

text \<open>\<^verbatim>\<open>a % b\<close> on Python integers: floor modulo, raising on a zero divisor.\<close>

definition py_mod :: "int \<Rightarrow> int \<Rightarrow> py_error + int" where
  "py_mod a b = (if b = 0 then Inl ZeroDivisionError else Inr (a mod b))"

text \<open>\<^verbatim>\<open>xs[i]\<close> on a Python list: a negative index counts from the end, an index
  outside the list raises.\<close>

definition py_getitem :: "'a list \<Rightarrow> int \<Rightarrow> py_error + 'a" where
  "py_getitem xs i =
     (if 0 \<le> i \<and> i < int (length xs) then Inr (xs ! nat i)
      else if i < 0 \<and> - int (length xs) \<le> i then Inr (xs ! nat (int (length xs) + i))
      else Inl IndexError)"

definition py_len :: "'a list \<Rightarrow> int" where
  "py_len xs = int (length xs)"

text \<open>\<^verbatim>\<open>range(n)\<close>: the integers from 0 up to \<open>n - 1\<close>, none when \<open>n \<le> 0\<close>.\<close>

definition py_range :: "int \<Rightarrow> int list" where
  "py_range n = map int [0..<nat n]"

text \<open>
  The patch that \<^verbatim>\<open>mpatches.Rectangle(xy, width, height, facecolor=, edgecolor=, alpha=)\<close>
  returns is kept as the record of the arguments it is built from. Colours and the
  opacity are only stored, never computed with, so their types are parameters.
\<close>

record ('c, 'a) Rectangle =
  xy :: "int \<times> int"
  width :: int
  height :: int
  facecolor :: 'c
  edgecolor :: 'c
  alpha :: 'a

text \<open>
  The constructor validates what it is given and raises ValueError on an edge or fill
  colour that is not a colour and on an opacity outside the range from 0 to 1. Which
  values are colours is decided by the colour table of the plotting library, which is not
  among the sources: it is the parameter \<open>is_color\<close>.
\<close>

definition mpatches_Rectangle ::
  "('c \<Rightarrow> bool) \<Rightarrow> int \<times> int \<Rightarrow> int \<Rightarrow> int \<Rightarrow> 'c \<Rightarrow> 'c \<Rightarrow> 'a::{zero,one,ord}
    \<Rightarrow> py_error + ('c, 'a) Rectangle" where
  "mpatches_Rectangle is_color p w h fc ec al =
     (if is_color ec \<and> is_color fc \<and> 0 \<le> al \<and> al \<le> 1
      then Inr \<lparr>xy = p, width = w, height = h, facecolor = fc, edgecolor = ec, alpha = al\<rparr>
      else Inl ValueError)"

text \<open>The \<^verbatim>\<open>for\<close> loop over the indices still to visit; \<open>handles\<close> is the list
  built so far, to which each iteration appends.\<close>

fun handles_loop ::
  "('c \<Rightarrow> bool) \<Rightarrow> int list \<Rightarrow> 'c list \<Rightarrow> int \<Rightarrow> 'c \<Rightarrow> 'a::{zero,one,ord}
    \<Rightarrow> ('c, 'a) Rectangle list \<Rightarrow> py_error + ('c, 'a) Rectangle list" where
  "handles_loop is_color [] colors lc edge al handles = Inr handles"
| "handles_loop is_color (i # rest) colors lc edge al handles =
     (case py_mod i lc of
        Inl e \<Rightarrow> Inl e
      | Inr j \<Rightarrow>
          (case py_getitem colors j of
             Inl e \<Rightarrow> Inl e
           | Inr c \<Rightarrow>
               (case mpatches_Rectangle is_color (0, 0) 1 1 c edge al of
                  Inl e \<Rightarrow> Inl e
                | Inr h \<Rightarrow> handles_loop is_color rest colors lc edge al (handles @ [h]))))"

definition generate_handles ::
  "('c \<Rightarrow> bool) \<Rightarrow> 'l list \<Rightarrow> 'c list \<Rightarrow> 'c \<Rightarrow> 'a::{zero,one,ord}
    \<Rightarrow> py_error + ('c, 'a) Rectangle list" where
  "generate_handles is_color labels colors edge al =
     (let lc = py_len colors;
          handles = []
      in handles_loop is_color (py_range (py_len labels)) colors lc edge al handles)"

text \<open>
  The colours the script itself writes are the strings \<^verbatim>\<open>'k'\<close>, \<^verbatim>\<open>'r'\<close> and
  \<^verbatim>\<open>'none'\<close>, which the plotting library accepts (black, red and no colour). The rest
  of its colour table is the parameter \<open>named\<close>.
\<close>

definition is_color_like :: "(string \<Rightarrow> bool) \<Rightarrow> string \<Rightarrow> bool" where
  "is_color_like named c = (c = ''k'' \<or> c = ''r'' \<or> c = ''none'' \<or> named c)"

text \<open>The colour table that holds the three colours of the script and nothing else.\<close>

definition script_colors_only :: "string \<Rightarrow> bool" where
  "script_colors_only c = False"

text \<open>The keyword parameters \<^verbatim>\<open>edge='k'\<close> and \<^verbatim>\<open>alpha=1\<close>: an argument the
  caller leaves out is \<open>None\<close> and takes the default of the signature.\<close>

definition generate_handles_kw ::
  "(string \<Rightarrow> bool) \<Rightarrow> 'l list \<Rightarrow> string list \<Rightarrow> string option \<Rightarrow> int option
    \<Rightarrow> py_error + (string, int) Rectangle list" where
  "generate_handles_kw named labels colors edge al =
     generate_handles (is_color_like named) labels colors
       (case edge of None \<Rightarrow> ''k'' | Some e \<Rightarrow> e)
       (case al of None \<Rightarrow> 1 | Some a \<Rightarrow> a)"

text \<open>The swatch the loop body builds for a fill colour.\<close>

abbreviation swatch :: "'c \<Rightarrow> 'a \<Rightarrow> 'c \<Rightarrow> ('c, 'a) Rectangle" where
  "swatch edge al c \<equiv>
     \<lparr>xy = (0, 0), width = 1, height = 1, facecolor = c, edgecolor = edge, alpha = al\<rparr>"

section \<open>The legend of the map (lines 77 to 84)\<close>

text \<open>
  \<^verbatim>\<open>
  county_outlines = ShapelyFeature(counties['geometry'], myCRS, edgecolor='r', facecolor='none')
  county_handles = generate_handles([''], ['none'], edge='r')
  ax.legend(county_handles, ['County Boundaries'], fontsize=12, loc='upper left', framealpha=1)
  \<close>
  The drawing itself is the plotting library's; what the script decides is the arguments it
  passes, which the records below keep.
\<close>

record outline_style =
  outline_edgecolor :: string
  outline_facecolor :: string

definition county_outlines :: outline_style where
  "county_outlines = \<lparr>outline_edgecolor = ''r'', outline_facecolor = ''none''\<rparr>"

definition county_handles :: "(string \<Rightarrow> bool) \<Rightarrow> py_error + (string, int) Rectangle list" where
  "county_handles named = generate_handles_kw named [''''::string] [''none''] (Some ''r'') None"

record legend =
  legend_handles :: "(string, int) Rectangle list"
  legend_labels :: "string list"
  fontsize :: int
  loc :: string
  framealpha :: int

definition ax_legend ::
  "(string, int) Rectangle list \<Rightarrow> string list \<Rightarrow> int \<Rightarrow> string \<Rightarrow> int \<Rightarrow> legend" where
  "ax_legend hs ls fs l fa =
     \<lparr>legend_handles = hs, legend_labels = ls, fontsize = fs, loc = l, framealpha = fa\<rparr>"

definition county_legend :: "(string \<Rightarrow> bool) \<Rightarrow> py_error + legend" where
  "county_legend named =
     (case county_handles named of
        Inl e \<Rightarrow> Inl e
      | Inr hs \<Rightarrow> Inr (ax_legend hs [''County Boundaries''] 12 ''upper left'' 1))"

section \<open>The geospatial pipeline (lines 32 to 48)\<close>

text \<open>
  Lines 32 to 48 of the script are calls into geopandas and pandas
  (\<^verbatim>\<open>to_crs\<close>, \<^verbatim>\<open>gpd.sjoin\<close>, \<^verbatim>\<open>sum\<close>, \<^verbatim>\<open>groupby\<close>); the code of those
  libraries is not part of the repository. The definitions of this section are therefore
  written from the contracts of sections 3, 4.2, 4.3 and 4.4 of the specification, and each
  says so.
\<close>

text \<open>Modelled from the spec: one record of the Feature Collection of section 3, a pair of
  a geometry and an attribute row. The geometry type and the type of the attribute row are
  parameters; the CRS tag of a collection is an EPSG code, absent when the CRS is
  undefined.\<close>

record ('g, 'a) feature =
  geometry :: 'g
  attrs :: 'a

text \<open>Modelled from the spec: a Feature Collection, the records in order and the CRS tag
  they share (geopandas' GeoDataFrame, missing from the sources).\<close>

record ('g, 'a) feature_collection =
  features :: "('g, 'a) feature list"
  crs :: "nat option"

text \<open>Modelled from the spec: the error kinds of section 7 that the Reprojector and the
  Spatial Joiner signal.\<close>

datatype pipeline_error = Projection_error | CRS_Mismatch_error

text \<open>Modelled from the spec: the Reprojector of section 4.2 (geopandas' \<^verbatim>\<open>to_crs\<close>, which
  is missing from the sources). Every geometry is transformed into the target CRS,
  attributes and record order stay, an undefined source CRS is a Projection error. The
  coordinate transform \<open>tr source target\<close> is the projection library's and stays a
  parameter.\<close>

definition to_crs ::
  "(nat \<Rightarrow> nat \<Rightarrow> 'g \<Rightarrow> 'g) \<Rightarrow> ('g, 'a) feature_collection \<Rightarrow> nat
    \<Rightarrow> pipeline_error + ('g, 'a) feature_collection" where
  "to_crs tr fc target =
     (case crs fc of
        None \<Rightarrow> Inl Projection_error
      | Some source \<Rightarrow>
          Inr \<lparr>features =
                 map (\<lambda>f. \<lparr>geometry = tr source target (geometry f), attrs = attrs f\<rparr>)
                     (features fc),
               crs = Some target\<rparr>)"

text \<open>Modelled from the spec: the right records that spatially match a left record
  (section 4.3). The spatial predicate \<open>P\<close> on two geometries is the geometry library's
  and stays a parameter.\<close>

definition matches ::
  "('g \<Rightarrow> 'g \<Rightarrow> bool) \<Rightarrow> ('g, 'a) feature \<Rightarrow> ('g, 'b) feature list \<Rightarrow> ('g, 'b) feature list" where
  "matches P w right = filter (\<lambda>c. P (geometry w) (geometry c)) right"

text \<open>Modelled from the spec: the rows of the Joined Table of section 3. A joined row
  inherits the left geometry; its attribute row holds the left and the right columns, kept
  apart as a pair, which is what the left/right suffixes do for colliding names. A left
  record without a match gives no row, one with several matches gives one row per match.
  Rows follow the left collection's order, then the right collection's order among the
  matches of one left record.\<close>

definition join_rows ::
  "('g \<Rightarrow> 'g \<Rightarrow> bool) \<Rightarrow> ('g, 'a) feature list \<Rightarrow> ('g, 'b) feature list
    \<Rightarrow> ('g, 'a \<times> 'b) feature list" where
  "join_rows P left right =
     concat (map (\<lambda>w. map (\<lambda>c. \<lparr>geometry = geometry w, attrs = (attrs w, attrs c)\<rparr>)
                           (matches P w right)) left)"

text \<open>Modelled from the spec: the Spatial Joiner of section 4.3 (\<^verbatim>\<open>gpd.sjoin\<close> with
  \<^verbatim>\<open>how='inner'\<close>, missing from the sources): a CRS-Mismatch error unless both inputs
  share a CRS, the joined rows under that CRS otherwise.\<close>

definition sjoin ::
  "('g \<Rightarrow> 'g \<Rightarrow> bool) \<Rightarrow> ('g, 'a) feature_collection \<Rightarrow> ('g, 'b) feature_collection
    \<Rightarrow> pipeline_error + ('g, 'a \<times> 'b) feature_collection" where
  "sjoin P left right =
     (if crs left \<noteq> crs right then Inl CRS_Mismatch_error
      else Inr \<lparr>features = join_rows P (features left) (features right), crs = crs left\<rparr>)"

text \<open>Modelled from the spec: the columns of the ward dataset that the script reads
  (section 6), the string \<^verbatim>\<open>Ward\<close> and the numeric \<^verbatim>\<open>Population\<close>. Populations are
  integers here, and every row has both values.\<close>

record ward_attrs =
  Ward :: string
  Population :: int

text \<open>Modelled from the spec: the column of the county dataset that the script reads
  (section 6), the string \<^verbatim>\<open>CountyName\<close>, present in every row.\<close>

record county_attrs =
  CountyName :: string

type_synonym 'g joined_row = "('g, ward_attrs \<times> county_attrs) feature"

text \<open>Modelled from the spec: the distinct grouping keys of section 4.4, in order of first
  occurrence.\<close>

fun distinct_keys :: "'k list \<Rightarrow> 'k list" where
  "distinct_keys [] = []"
| "distinct_keys (k # ks) = k # filter (\<lambda>k'. k' \<noteq> k) (distinct_keys ks)"

text \<open>Modelled from the spec: the total of section 4.4 (pandas' \<^verbatim>\<open>sum\<close> of a column,
  missing from the sources), the sum of a column over all rows.\<close>

definition total :: "('r \<Rightarrow> int) \<Rightarrow> 'r list \<Rightarrow> int" where
  "total col rows = sum_list (map col rows)"

text \<open>Modelled from the spec: the grouped sums of section 4.4 (pandas'
  \<^verbatim>\<open>groupby(...)[...].sum()\<close>, missing from the sources): each distinct key is mapped to
  the sum of the column over the rows sharing that key.\<close>

definition groupby_sum :: "('r \<Rightarrow> 'k) \<Rightarrow> ('r \<Rightarrow> int) \<Rightarrow> 'r list \<Rightarrow> ('k \<times> int) list" where
  "groupby_sum key col rows =
     map (\<lambda>k. (k, sum_list (map col (filter (\<lambda>r. key r = k) rows))))
         (distinct_keys (map key rows))"

text \<open>Lines 44, 46 and 48 of the script, on the rows of the joined table:
  \<^verbatim>\<open>join['Population'].sum()\<close>,
  \<^verbatim>\<open>join.groupby(['CountyName'])['Population'].sum()\<close> and
  \<^verbatim>\<open>join.groupby(['CountyName', 'Ward'])['Population'].sum()\<close>.\<close>

definition population :: "'g joined_row \<Rightarrow> int" where
  "population r = Population (fst (attrs r))"

definition county_name :: "'g joined_row \<Rightarrow> string" where
  "county_name r = CountyName (snd (attrs r))"

definition ward_name :: "'g joined_row \<Rightarrow> string" where
  "ward_name r = Ward (fst (attrs r))"

definition join_total :: "'g joined_row list \<Rightarrow> int" where
  "join_total rows = total population rows"

definition by_county :: "'g joined_row list \<Rightarrow> (string \<times> int) list" where
  "by_county rows = groupby_sum county_name population rows"

definition by_county_and_ward :: "'g joined_row list \<Rightarrow> ((string \<times> string) \<times> int) list" where
  "by_county_and_ward rows = groupby_sum (\<lambda>r. (county_name r, ward_name r)) population rows"

section \<open>Example data\<close>

text \<open>
  Geometries for the examples are intervals on a line, two of which match when they
  overlap. \<open>scenario_wards\<close> and \<open>scenario_counties\<close> are the end-to-end scenario of
  section 8 of the specification: two wards of populations 1000 and 3000 inside one county
  X. \<open>example_wards\<close> and \<open>example_counties\<close> add a ward that straddles two counties and
  a ward outside every county.
\<close>

type_synonym interval = "nat \<times> nat"

definition overlaps :: "interval \<Rightarrow> interval \<Rightarrow> bool" where
  "overlaps a b = (fst a \<le> snd b \<and> fst b \<le> snd a)"

definition example_wards :: "(interval, ward_attrs) feature_collection" where
  "example_wards =
     \<lparr>features =
        [\<lparr>geometry = (0, 1), attrs = \<lparr>Ward = ''A'', Population = 1000\<rparr>\<rparr>,
         \<lparr>geometry = (4, 6), attrs = \<lparr>Ward = ''B'', Population = 3000\<rparr>\<rparr>,
         \<lparr>geometry = (20, 21), attrs = \<lparr>Ward = ''C'', Population = 500\<rparr>\<rparr>],
      crs = Some 2157\<rparr>"

definition example_counties :: "(interval, county_attrs) feature_collection" where
  "example_counties =
     \<lparr>features =
        [\<lparr>geometry = (0, 5), attrs = \<lparr>CountyName = ''X''\<rparr>\<rparr>,
         \<lparr>geometry = (6, 9), attrs = \<lparr>CountyName = ''Y''\<rparr>\<rparr>],
      crs = Some 2157\<rparr>"

definition scenario_wards :: "(interval, ward_attrs) feature_collection" where
  "scenario_wards =
     \<lparr>features =
        [\<lparr>geometry = (1, 2), attrs = \<lparr>Ward = ''A'', Population = 1000\<rparr>\<rparr>,
         \<lparr>geometry = (3, 4), attrs = \<lparr>Ward = ''B'', Population = 3000\<rparr>\<rparr>],
      crs = Some 2157\<rparr>"

definition scenario_counties :: "(interval, county_attrs) feature_collection" where
  "scenario_counties =
     \<lparr>features = [\<lparr>geometry = (0, 5), attrs = \<lparr>CountyName = ''X''\<rparr>\<rparr>],
      crs = Some 2157\<rparr>"

section \<open>Properties of the loop\<close>

lemma py_getitem_mod:
  assumes "colors \<noteq> []" and "0 \<le> i"
  shows "py_getitem colors (i mod int (length colors))
           = Inr (colors ! (nat i mod length colors))"
proof -
  have pos: "0 < int (length colors)" using assms(1) by simp
  have lo: "0 \<le> i mod int (length colors)" using pos by simp
  have hi: "i mod int (length colors) < int (length colors)" using pos by simp
  have "nat (i mod int (length colors)) = nat i mod length colors"
    using assms(2) by (simp add: nat_mod_distrib)
  with lo hi show ?thesis by (simp add: py_getitem_def)
qed

text \<open>When the constructor accepts the arguments of every call, the loop appends one
  swatch per index.\<close>

lemma handles_loop_accepted:
  assumes "colors \<noteq> []"
    and "\<forall>i \<in> set idx. 0 \<le> i \<and> is_color (colors ! (nat i mod length colors))
                          \<and> is_color edge \<and> 0 \<le> al \<and> al \<le> 1"
  shows "handles_loop is_color idx colors (int (length colors)) edge al handles
           = Inr (handles @ map (\<lambda>i. swatch edge al (colors ! (nat i mod length colors))) idx)"
  using assms(2)
proof (induction idx arbitrary: handles)
  case Nil
  show ?case by simp
next
  case (Cons i rest)
  have nz: "int (length colors) \<noteq> 0" using assms(1) by simp
  have "0 \<le> i" using Cons.prems by simp
  then have g: "py_getitem colors (i mod int (length colors))
                  = Inr (colors ! (nat i mod length colors))"
    using assms(1) by (rule py_getitem_mod[rotated])
  have ok: "is_color (colors ! (nat i mod length colors)) \<and> is_color edge \<and> 0 \<le> al \<and> al \<le> 1"
    using Cons.prems by simp
  then have r: "mpatches_Rectangle is_color (0, 0) 1 1 (colors ! (nat i mod length colors)) edge al
                  = Inr (swatch edge al (colors ! (nat i mod length colors)))"
    by (simp add: mpatches_Rectangle_def)
  have "\<forall>i \<in> set rest. 0 \<le> i \<and> is_color (colors ! (nat i mod length colors))
                          \<and> is_color edge \<and> 0 \<le> al \<and> al \<le> 1"
    using Cons.prems by simp
  then show ?case
    using nz g r by (simp add: py_mod_def Cons.IH)
qed

lemma generate_handles_accepted:
  assumes "colors \<noteq> []"
    and "\<forall>i < length labels. is_color (colors ! (i mod length colors))
                             \<and> is_color edge \<and> 0 \<le> al \<and> al \<le> 1"
  shows "generate_handles is_color labels colors edge al
           = Inr (map (\<lambda>i. swatch edge al (colors ! (i mod length colors)))
                      [0..<length labels])"
proof -
  have "\<forall>i \<in> set (map int [0..<length labels]).
          0 \<le> i \<and> is_color (colors ! (nat i mod length colors))
                \<and> is_color edge \<and> 0 \<le> al \<and> al \<le> 1"
    using assms(2) by simp
  from handles_loop_accepted[OF assms(1) this, of "[]"]
  show ?thesis
    by (simp add: generate_handles_def py_len_def py_range_def comp_def)
qed

lemma handles_loop_no_colors:
  "handles_loop is_color (i # rest) colors 0 edge al handles = Inl ZeroDivisionError"
  by (simp add: py_mod_def)

lemma generate_handles_no_colors:
  assumes "labels \<noteq> []"
  shows "generate_handles is_color labels [] edge al = Inl ZeroDivisionError"
proof -
  obtain l ls where "labels = l # ls" using assms by (cases labels) auto
  then have "nat (py_len labels) = Suc (length ls)"
    by (simp add: py_len_def)
  then have r: "py_range (py_len labels) = 0 # map int [Suc 0..<Suc (length ls)]"
    by (simp add: py_range_def upt_conv_Cons del: upt_Suc)
  show ?thesis
    unfolding generate_handles_def Let_def r
    by (simp add: py_len_def py_mod_def)
qed

lemma mpatches_Rectangle_style:
  assumes "mpatches_Rectangle is_color p w h c edge al = Inr r"
  shows "edgecolor r = edge \<and> alpha r = al"
  using assms by (auto simp: mpatches_Rectangle_def split: if_splits)

lemma handles_loop_style:
  assumes "handles_loop is_color idx colors lc edge al handles = Inr hs"
    and "\<forall>h \<in> set handles. edgecolor h = edge \<and> alpha h = al"
  shows "\<forall>h \<in> set hs. edgecolor h = edge \<and> alpha h = al"
  using assms
proof (induction idx arbitrary: handles)
  case Nil
  then show ?case by simp
next
  case (Cons i rest)
  from Cons.prems(1) obtain j c r where
    made: "mpatches_Rectangle is_color (0, 0) 1 1 c edge al = Inr r"
    and step: "handles_loop is_color rest colors lc edge al (handles @ [r]) = Inr hs"
    by (auto split: sum.splits)
  have "\<forall>h \<in> set (handles @ [r]). edgecolor h = edge \<and> alpha h = al"
    using Cons.prems(2) mpatches_Rectangle_style[OF made] by simp
  with step show ?case by (rule Cons.IH)
qed

section \<open>Properties of the pipeline model\<close>

lemma distinct_keys_set: "set (distinct_keys ks) = set ks"
  by (induction ks) auto

lemma distinct_keys_distinct: "distinct (distinct_keys ks)"
  by (induction ks) (auto simp: distinct_keys_set)

lemma sum_list_absent_key:
  "k0 \<notin> set ks \<Longrightarrow> sum_list (map (\<lambda>k. if k0 = k then c else 0) ks) = (0::int)"
  by (induction ks) auto

lemma sum_list_single_key:
  "distinct ks \<Longrightarrow> k0 \<in> set ks \<Longrightarrow> sum_list (map (\<lambda>k. if k0 = k then c else 0) ks) = (c::int)"
  by (induction ks) (auto simp: sum_list_absent_key)

lemma group_sums_total:
  assumes "distinct ks" and "key ` set rows \<subseteq> set ks"
  shows "sum_list (map (\<lambda>k. sum_list (map col (filter (\<lambda>r. key r = k) rows))) ks)
           = (sum_list (map col rows) :: int)"
  using assms(2)
proof (induction rows)
  case Nil
  show ?case by simp
next
  case (Cons r rows)
  have split: "\<And>k. sum_list (map col (filter (\<lambda>r. key r = k) (r # rows)))
                 = (if key r = k then col r else 0)
                   + sum_list (map col (filter (\<lambda>r. key r = k) rows))"
    by simp
  have "key r \<in> set ks" using Cons.prems by simp
  with assms(1) have here: "sum_list (map (\<lambda>k. if key r = k then col r else 0) ks) = col r"
    by (rule sum_list_single_key)
  have "key ` set rows \<subseteq> set ks" using Cons.prems by simp
  then have rest: "sum_list (map (\<lambda>k. sum_list (map col (filter (\<lambda>r. key r = k) rows))) ks)
                = sum_list (map col rows)"
    by (rule Cons.IH)
  show ?case
    unfolding split by (simp add: sum_list_addf here rest)
qed

lemma groupby_sum_total:
  "sum_list (map snd (groupby_sum key col rows)) = total col rows"
proof -
  have "key ` set rows \<subseteq> set (distinct_keys (map key rows))"
    by (simp add: distinct_keys_set)
  from group_sums_total[OF distinct_keys_distinct this, of col]
  show ?thesis by (simp add: groupby_sum_def total_def comp_def)
qed

lemma groupby_sum_keys:
  "map fst (groupby_sum key col rows) = distinct_keys (map key rows)"
  by (simp add: groupby_sum_def comp_def)

lemma join_rows_length:
  "length (join_rows P left right) = sum_list (map (\<lambda>w. length (matches P w right)) left)"
  by (simp add: join_rows_def length_concat comp_def)

lemma join_rows_append:
  "join_rows P (xs @ ys) right = join_rows P xs right @ join_rows P ys right"
  by (simp add: join_rows_def)

lemma matching_pairs_card:
  "card {(i, j). i < length left \<and> j < length right
                  \<and> P (geometry (left ! i)) (geometry (right ! j))}
     = sum_list (map (\<lambda>w. length (matches P w right)) left)"
proof (induction left rule: rev_induct)
  case Nil
  show ?case by simp
next
  case (snoc w left)
  let ?old = "{(i, j). i < length left \<and> j < length right
                 \<and> P (geometry (left ! i)) (geometry (right ! j))}"
  let ?new = "{length left} \<times> {j. j < length right \<and> P (geometry w) (geometry (right ! j))}"
  have eq: "{(i, j). i < length (left @ [w]) \<and> j < length right
                 \<and> P (geometry ((left @ [w]) ! i)) (geometry (right ! j))} = ?old \<union> ?new"
    by (auto simp: nth_append less_Suc_eq)
  have fin_old: "finite ?old"
    by (rule finite_subset[of _ "{..<length left} \<times> {..<length right}"]) auto
  have fin_new: "finite ?new" by simp
  have disj: "?old \<inter> ?new = {}" by auto
  have "card ?new = length (matches P w right)"
    by (simp add: card_cartesian_product_singleton matches_def length_filter_conv_card)
  then show ?case
    unfolding eq using snoc.IH by (simp add: card_Un_disjoint[OF fin_old fin_new disj])
qed

text \<open>The end-to-end scenario of section 8: the total is 4000, the by-county mapping is
  X to 4000, and the by-county-and-ward mapping has two entries that sum to 4000.\<close>

lemma end_to_end_scenario:
  "\<exists>joined. sjoin overlaps scenario_wards scenario_counties = Inr joined
     \<and> join_total (features joined) = 4000
     \<and> by_county (features joined) = [(''X'', 4000)]
     \<and> by_county_and_ward (features joined) = [((''X'', ''A''), 1000), ((''X'', ''B''), 3000)]"
  by (simp add: sjoin_def join_rows_def matches_def overlaps_def scenario_wards_def
      scenario_counties_def join_total_def total_def by_county_def by_county_and_ward_def
      groupby_sum_def population_def county_name_def ward_name_def)

section \<open>Claims about the legend handle generator\<close>

text \<open>
  C1, as the specification states it: for every non-empty colour list and every label list
  \<open>generate_handles\<close> returns one handle per label. The constructor of the patch rejects
  an opacity outside the range from 0 to 1, so the call
  \<^verbatim>\<open>generate_handles(['a'], ['r'], alpha=-3)\<close>, whose colour list is not empty, raises
  ValueError and returns nothing.
\<close>

theorem generate_handles_count_and_cycle_counterexample:
  "generate_handles (is_color_like script_colors_only) [''a''] [''r''] ''k'' (- 3 :: int)
     = Inl ValueError"
  by (simp add: generate_handles_def py_len_def py_range_def py_mod_def py_getitem_def
      mpatches_Rectangle_def)

text \<open>
  C1, amended: for every non-empty colour list and every label list such that the
  constructor accepts the arguments of each call the loop makes (the fill colour at
  position \<open>i mod len(colors)\<close> for each label index \<open>i\<close>, the edge colour, and an
  opacity between 0 and 1), \<open>generate_handles\<close> returns, and returns exactly as many
  handles as there are labels; the fill colour of the i-th handle (counting from 0) is the
  colour at position \<open>i mod len(colors)\<close>, so the colours cycle when they are fewer than
  the labels.
\<close>

theorem generate_handles_count_and_cycle:
  assumes "colors \<noteq> []"
    and "\<forall>i < length labels. is_color (colors ! (i mod length colors))
                             \<and> is_color edge \<and> 0 \<le> al \<and> al \<le> 1"
  shows "\<exists>hs. generate_handles is_color labels colors edge al = Inr hs
           \<and> length hs = length labels
           \<and> (\<forall>i < length labels. facecolor (hs ! i) = colors ! (i mod length colors))"
  using generate_handles_accepted[OF assms] by simp

theorem generate_handles_count_and_cycle_witness:
  "\<exists>hs. generate_handles (is_color_like script_colors_only)
           [''a'', ''b'', ''c''] [''r'', ''k''] ''k'' (1::int) = Inr hs
     \<and> length hs = 3
     \<and> facecolor (hs ! 0) = ''r''
     \<and> facecolor (hs ! 1) = ''k''
     \<and> facecolor (hs ! 2) = ''r''"
proof -
  have ne: "[''r'', ''k''] \<noteq> []" by simp
  have known: "\<And>c. c \<in> set [''r'', ''k''] \<Longrightarrow> is_color_like script_colors_only c"
    by (auto simp: is_color_like_def)
  have mem: "\<And>i. [''r'', ''k''] ! (i mod length [''r'', ''k'']) \<in> set [''r'', ''k'']"
    by (rule nth_mem) simp
  have ok: "\<forall>i < length [''a'', ''b'', ''c''].
      is_color_like script_colors_only ([''r'', ''k''] ! (i mod length [''r'', ''k'']))
      \<and> is_color_like script_colors_only ''k'' \<and> 0 \<le> (1::int) \<and> (1::int) \<le> 1"
  proof (intro allI impI conjI)
    fix i
    show "is_color_like script_colors_only ([''r'', ''k''] ! (i mod length [''r'', ''k'']))"
      by (rule known[OF mem])
    show "is_color_like script_colors_only ''k''"
      by (simp add: is_color_like_def)
    show "0 \<le> (1::int)" by simp
    show "(1::int) \<le> 1" by simp
  qed
  from generate_handles_count_and_cycle[OF ne ok]
  obtain hs where
    ret: "generate_handles (is_color_like script_colors_only)
            [''a'', ''b'', ''c''] [''r'', ''k''] ''k'' (1::int) = Inr hs"
    and len: "length hs = length [''a'', ''b'', ''c'']"
    and fill: "\<forall>i < length [''a'', ''b'', ''c''].
                 facecolor (hs ! i) = [''r'', ''k''] ! (i mod length [''r'', ''k''])"
    by blast
  have "facecolor (hs ! 0) = ''r''" using fill by simp
  moreover have "facecolor (hs ! 1) = ''k''" using fill by simp
  moreover have "facecolor (hs ! 2) = ''r''" using fill by (simp add: numeral_2_eq_2)
  ultimately show ?thesis using ret len by simp
qed

text \<open>
  C2, as the specification states it: for every label list, calling \<open>generate_handles\<close>
  with an empty colour list raises. With no labels the loop body never runs, the
  modulo is never evaluated, and the call returns the empty list of handles.
\<close>

theorem generate_handles_empty_colors_counterexample:
  "generate_handles (is_color_like script_colors_only) ([]::string list) ([]::string list)
     ''k'' (1::int) = Inr []"
  by (simp add: generate_handles_def py_len_def py_range_def)

text \<open>
  C2, amended: for every non-empty label list, calling \<open>generate_handles\<close> with an
  empty colour list raises ZeroDivisionError, in the first iteration, and returns no
  handles.
\<close>

theorem generate_handles_empty_colors_raises:
  assumes "labels \<noteq> []"
  shows "generate_handles is_color labels [] edge al = Inl ZeroDivisionError"
  using assms by (rule generate_handles_no_colors)

theorem generate_handles_empty_colors_raises_witness:
  "generate_handles (is_color_like script_colors_only) [''''::string] ([]::string list)
     ''r'' (1::int) = Inl ZeroDivisionError"
proof -
  have ne: "[''''::string] \<noteq> []" by simp
  show ?thesis by (rule generate_handles_empty_colors_raises[OF ne])
qed

text \<open>
  C7. Whenever \<open>generate_handles\<close> returns, every handle it produced has the edge colour
  and the opacity that were passed in; when the caller leaves both out, these are the
  defaults of the signature, \<^verbatim>\<open>'k'\<close> (black) and 1 (fully opaque).
\<close>

theorem generate_handles_shared_style:
  "(generate_handles is_color labels colors edge al = Inr hs
      \<longrightarrow> (\<forall>h \<in> set hs. edgecolor h = edge \<and> alpha h = al))
   \<and> (generate_handles_kw named labels' colors' None None = Inr hs'
      \<longrightarrow> (\<forall>h \<in> set hs'. edgecolor h = ''k'' \<and> alpha h = 1))"
proof (intro conjI impI)
  assume "generate_handles is_color labels colors edge al = Inr hs"
  then have "handles_loop is_color (py_range (py_len labels)) colors (py_len colors) edge al []
               = Inr hs"
    by (simp add: generate_handles_def)
  then show "\<forall>h \<in> set hs. edgecolor h = edge \<and> alpha h = al"
    by (rule handles_loop_style) simp
next
  assume "generate_handles_kw named labels' colors' None None = Inr hs'"
  then have "handles_loop (is_color_like named) (py_range (py_len labels')) colors'
               (py_len colors') ''k'' 1 [] = Inr hs'"
    by (simp add: generate_handles_kw_def generate_handles_def)
  then show "\<forall>h \<in> set hs'. edgecolor h = ''k'' \<and> alpha h = 1"
    by (rule handles_loop_style) simp
qed

theorem generate_handles_shared_style_witness:
  "generate_handles (is_color_like script_colors_only) [''a'', ''b''] [''none''] ''r'' (0::int)
     = Inr [swatch ''r'' 0 ''none'', swatch ''r'' 0 ''none'']
   \<and> list_all (\<lambda>h. edgecolor h = ''r'' \<and> alpha h = 0)
        [swatch ''r'' (0::int) ''none'', swatch ''r'' 0 ''none'']
   \<and> generate_handles_kw script_colors_only [''a''] [''r''] None None
       = Inr [swatch ''k'' 1 ''r'']
   \<and> list_all (\<lambda>h. edgecolor h = ''k'' \<and> alpha h = 1) [swatch ''k'' (1::int) ''r'']"
proof -
  have r1: "generate_handles (is_color_like script_colors_only) [''a'', ''b''] [''none'']
              ''r'' (0::int)
              = Inr [swatch ''r'' 0 ''none'', swatch ''r'' 0 ''none'']"
    by (simp add: generate_handles_def py_len_def py_range_def py_mod_def py_getitem_def
        mpatches_Rectangle_def is_color_like_def numeral_2_eq_2)
  have r2: "generate_handles_kw script_colors_only [''a''] [''r''] None None
              = Inr [swatch ''k'' 1 ''r'']"
    by (simp add: generate_handles_kw_def generate_handles_def py_len_def py_range_def
        py_mod_def py_getitem_def mpatches_Rectangle_def is_color_like_def)
  from generate_handles_shared_style[of "is_color_like script_colors_only"
      "[''a'', ''b'']" "[''none'']" "''r''" "0::int"
      "[swatch ''r'' 0 ''none'', swatch ''r'' 0 ''none'']"
      script_colors_only "[''a'']" "[''r'']" "[swatch ''k'' 1 ''r'']"] r1 r2
  show ?thesis by (simp add: list_all_iff)
qed

text \<open>
  C9. With an empty label list \<open>generate_handles\<close> returns the empty sequence of handles
  and raises nothing, whatever the colour list is, the empty one included: the loop body,
  and with it the modulo by the number of colours, is never reached.
\<close>

theorem generate_handles_empty_labels:
  "generate_handles is_color [] colors edge al = Inr []"
  by (simp add: generate_handles_def py_len_def py_range_def)

text \<open>
  C10. The result of \<open>generate_handles\<close> depends on the labels only through their number:
  two label lists of the same length, with the same colours, edge colour and opacity,
  give the same outcome, hence handles with the same fill colours, edge colours and
  opacities.
\<close>

theorem generate_handles_label_contents_irrelevant:
  assumes "length labels1 = length labels2"
  shows "generate_handles is_color labels1 colors edge al
           = generate_handles is_color labels2 colors edge al"
  using assms by (simp add: generate_handles_def py_len_def)

theorem generate_handles_label_contents_irrelevant_witness:
  "generate_handles (is_color_like script_colors_only) [''Antrim'', ''Down''] [''r'', ''k'']
     ''k'' (1::int)
     = generate_handles (is_color_like script_colors_only) [''x'', ''''::string] [''r'', ''k'']
         ''k'' 1"
proof -
  have len: "length [''Antrim'', ''Down''] = length [''x'', ''''::string]" by simp
  show ?thesis by (rule generate_handles_label_contents_irrelevant[OF len])
qed

text \<open>
  C8. The script builds exactly one legend handle, through \<open>generate_handles\<close>, with fill
  \<^verbatim>\<open>'none'\<close> and the edge colour \<^verbatim>\<open>'r'\<close> of the county outlines, and passes that one
  handle to the legend with the label "County Boundaries", location upper left, font size
  12 and a frame opacity of 1.
\<close>

theorem county_legend_single_handle:
  "county_handles named = Inr [swatch ''r'' 1 ''none'']
   \<and> county_legend named =
       Inr \<lparr>legend_handles = [swatch (outline_edgecolor county_outlines) 1
                                 (outline_facecolor county_outlines)],
            legend_labels = [''County Boundaries''],
            fontsize = 12, loc = ''upper left'', framealpha = 1\<rparr>"
proof -
  have h: "county_handles named = Inr [swatch ''r'' 1 ''none'']"
    by (simp add: county_handles_def generate_handles_kw_def generate_handles_def
        py_len_def py_range_def py_mod_def py_getitem_def mpatches_Rectangle_def
        is_color_like_def)
  show ?thesis
    unfolding county_legend_def h
    by (simp add: ax_legend_def county_outlines_def)
qed

section \<open>Claims about the pipeline\<close>

text \<open>
  C3. The three aggregates over the Population column of the joined table agree: the total
  equals the sum of the values of the grouping by CountyName, which equals the sum of the
  values of the grouping by (CountyName, Ward). Both groupings have one entry per distinct
  key, so the sums run over the values of a mapping.
\<close>

theorem aggregates_consistent:
  "join_total rows = sum_list (map snd (by_county rows))
   \<and> sum_list (map snd (by_county rows)) = sum_list (map snd (by_county_and_ward rows))
   \<and> distinct (map fst (by_county rows))
   \<and> distinct (map fst (by_county_and_ward rows))"
  by (simp add: join_total_def by_county_def by_county_and_ward_def groupby_sum_total
      groupby_sum_keys distinct_keys_distinct)

text \<open>
  C4. The join of wards (left) with counties (right) is an inner join. When it returns, the
  number of its rows is the number of (ward, county) pairs that match. Wherever a ward
  \<open>w\<close> stands in the left collection, the joined rows are those of the wards before it, then
  a block contributed by \<open>w\<close>, then those of the wards after it; the block has exactly as
  many rows as counties match \<open>w\<close> (none when no county matches), and each of its rows
  carries the geometry and the attributes of \<open>w\<close>.
\<close>

theorem sjoin_inner_semantics:
  assumes "sjoin P left right = Inr joined"
  shows "length (features joined)
           = card {(i, j). i < length (features left) \<and> j < length (features right)
                     \<and> P (geometry (features left ! i)) (geometry (features right ! j))}
         \<and> (\<forall>before w after. features left = before @ w # after \<longrightarrow>
               (\<exists>block. features joined
                           = join_rows P before (features right) @ block
                             @ join_rows P after (features right)
                  \<and> length block = length (matches P w (features right))
                  \<and> (\<forall>r \<in> set block. geometry r = geometry w \<and> fst (attrs r) = attrs w)))"
proof -
  from assms have rows: "features joined = join_rows P (features left) (features right)"
    by (auto simp: sjoin_def split: if_splits)
  have count: "length (features joined)
           = card {(i, j). i < length (features left) \<and> j < length (features right)
                     \<and> P (geometry (features left ! i)) (geometry (features right ! j))}"
    by (simp add: rows join_rows_length matching_pairs_card)
  have blocks: "\<exists>block. features joined
                           = join_rows P before (features right) @ block
                             @ join_rows P after (features right)
                  \<and> length block = length (matches P w (features right))
                  \<and> (\<forall>r \<in> set block. geometry r = geometry w \<and> fst (attrs r) = attrs w)"
    if "features left = before @ w # after" for before w after
  proof -
    let ?block = "join_rows P [w] (features right)"
    have "features joined = join_rows P before (features right) @ ?block
                             @ join_rows P after (features right)"
      using that join_rows_append[of P before "[w] @ after" "features right"]
        join_rows_append[of P "[w]" after "features right"]
      by (simp add: rows)
    moreover have "length ?block = length (matches P w (features right))"
      by (simp add: join_rows_length)
    moreover have "\<forall>r \<in> set ?block. geometry r = geometry w \<and> fst (attrs r) = attrs w"
      by (auto simp: join_rows_def)
    ultimately show ?thesis by blast
  qed
  from count blocks show ?thesis by blast
qed

theorem sjoin_inner_semantics_witness:
  "\<exists>joined. sjoin overlaps example_wards example_counties = Inr joined
     \<and> length (features joined) = 3
     \<and> card {(i, j). i < length (features example_wards)
                  \<and> j < length (features example_counties)
                  \<and> overlaps (geometry (features example_wards ! i))
                             (geometry (features example_counties ! j))} = 3
     \<and> (\<exists>block. features joined
                   = join_rows overlaps [features example_wards ! 0] (features example_counties)
                     @ block
                     @ join_rows overlaps [features example_wards ! 2] (features example_counties)
          \<and> length block = 2
          \<and> list_all (\<lambda>r. geometry r = (4, 6) \<and> Ward (fst (attrs r)) = ''B'') block)
     \<and> (\<exists>block. features joined
                   = join_rows overlaps (take 2 (features example_wards)) (features example_counties)
                     @ block
                     @ join_rows overlaps [] (features example_counties)
          \<and> block = [])"
proof -
  let ?J = "\<lparr>features = join_rows overlaps (features example_wards) (features example_counties),
             crs = Some 2157\<rparr>"
  have ret: "sjoin overlaps example_wards example_counties = Inr ?J"
    by (simp add: sjoin_def example_wards_def example_counties_def)
  have len: "length (features ?J) = 3"
    by (simp add: join_rows_def matches_def overlaps_def example_wards_def example_counties_def)
  note sem = sjoin_inner_semantics[OF ret]
  from sem have count: "length (features ?J)
      = card {(i, j). i < length (features example_wards)
                  \<and> j < length (features example_counties)
                  \<and> overlaps (geometry (features example_wards ! i))
                             (geometry (features example_counties ! j))}"
    by blast
  from sem have blocks: "\<And>before w after. features example_wards = before @ w # after \<Longrightarrow>
      \<exists>block. features ?J = join_rows overlaps before (features example_counties) @ block
                             @ join_rows overlaps after (features example_counties)
        \<and> length block = length (matches overlaps w (features example_counties))
        \<and> (\<forall>r \<in> set block. geometry r = geometry w \<and> fst (attrs r) = attrs w)"
    by blast
  have two: "features example_wards
               = [features example_wards ! 0] @ features example_wards ! 1
                 # [features example_wards ! 2]"
    by (simp add: example_wards_def)
  have none: "features example_wards
               = take 2 (features example_wards) @ features example_wards ! 2 # []"
    by (simp add: example_wards_def)
  from blocks[OF two] obtain b2 where
    b2: "features ?J = join_rows overlaps [features example_wards ! 0] (features example_counties)
                         @ b2
                         @ join_rows overlaps [features example_wards ! 2] (features example_counties)"
      "length b2 = length (matches overlaps (features example_wards ! 1) (features example_counties))"
      "\<forall>r \<in> set b2. geometry r = geometry (features example_wards ! 1)
                     \<and> fst (attrs r) = attrs (features example_wards ! 1)"
    by blast
  have "length b2 = 2"
    using b2(2) by (simp add: matches_def overlaps_def example_wards_def example_counties_def)
  moreover have "list_all (\<lambda>r. geometry r = (4, 6) \<and> Ward (fst (attrs r)) = ''B'') b2"
    using b2(3) by (simp add: list_all_iff example_wards_def)
  ultimately have second: "\<exists>block. features ?J
                   = join_rows overlaps [features example_wards ! 0] (features example_counties)
                     @ block
                     @ join_rows overlaps [features example_wards ! 2] (features example_counties)
          \<and> length block = 2
          \<and> list_all (\<lambda>r. geometry r = (4, 6) \<and> Ward (fst (attrs r)) = ''B'') block"
    using b2(1) by blast
  from blocks[OF none] obtain b0 where
    b0: "features ?J = join_rows overlaps (take 2 (features example_wards)) (features example_counties)
                         @ b0 @ join_rows overlaps [] (features example_counties)"
      "length b0 = length (matches overlaps (features example_wards ! 2) (features example_counties))"
    by blast
  have "b0 = []"
    using b0(2) by (simp add: matches_def overlaps_def example_wards_def example_counties_def)
  with b0(1) have third: "\<exists>block. features ?J
                   = join_rows overlaps (take 2 (features example_wards)) (features example_counties)
                     @ block
                     @ join_rows overlaps [] (features example_counties)
          \<and> block = []"
    by blast
  from ret len count second third show ?thesis
    by (intro exI[of _ ?J] conjI) simp_all
qed

text \<open>
  C6. Reprojecting a feature collection whose source CRS is defined returns a collection
  tagged with the target CRS, with the same number of records, the same attribute rows in
  the same order, and each geometry replaced by its transform from the source to the
  target CRS.
\<close>

theorem to_crs_frame:
  assumes "crs fc = Some source"
  shows "\<exists>fc'. to_crs tr fc target = Inr fc'
           \<and> crs fc' = Some target
           \<and> length (features fc') = length (features fc)
           \<and> map attrs (features fc') = map attrs (features fc)
           \<and> map geometry (features fc') = map (tr source target) (map geometry (features fc))"
  using assms by (simp add: to_crs_def comp_def)

theorem to_crs_frame_witness:
  "\<exists>fc'. to_crs (\<lambda>s t g. (fst g + t, snd g + t)) example_wards 2157 = Inr fc'
     \<and> crs fc' = Some 2157
     \<and> length (features fc') = 3
     \<and> map (Population \<circ> attrs) (features fc') = [1000, 3000, 500]
     \<and> map (Ward \<circ> attrs) (features fc') = [''A'', ''B'', ''C'']"
proof -
  have src: "crs example_wards = Some 2157" by (simp add: example_wards_def)
  from to_crs_frame[OF src, of "\<lambda>s t g. (fst g + t, snd g + t)" 2157]
  obtain fc' where
    f: "to_crs (\<lambda>s t g. (fst g + t, snd g + t)) example_wards 2157 = Inr fc'"
      "crs fc' = Some 2157"
      "length (features fc') = length (features example_wards)"
      "map attrs (features fc') = map attrs (features example_wards)"
    by blast
  have "map (Population \<circ> attrs) (features fc') = map Population (map attrs (features fc'))"
    by simp
  then have p: "map (Population \<circ> attrs) (features fc') = [1000, 3000, 500]"
    unfolding f(4) by (simp add: example_wards_def)
  have "map (Ward \<circ> attrs) (features fc') = map Ward (map attrs (features fc'))"
    by simp
  then have w: "map (Ward \<circ> attrs) (features fc') = [''A'', ''B'', ''C'']"
    unfolding f(4) by (simp add: example_wards_def)
  have l: "length (features fc') = 3" using f(3) by (simp add: example_wards_def)
  show ?thesis
    by (rule exI[of _ fc']) (simp only: f(1,2) l p w simp_thms)
qed



end
